theory Spec2Isabelle
  imports Complex_Main
begin

section \<open>Survey data: frames, rows and Python errors\<close>

text \<open>
  A cell of a frame read by pandas holds a Python object: a \<open>str\<close>, an \<open>int\<close>, a finite
  \<open>float\<close>, or the missing value \<open>NaN\<close>. No definition below computes with a float, so a
  finite float is carried as a real number.
\<close>

datatype cell = Text string | Number int | Fraction real | NaN

datatype error = KeyError | TypeError | FileNotFoundError | ValueError | LibraryError string

text \<open>
  The row that \<open>df.apply(f, axis=1)\<close> hands to \<open>f\<close> is a Series: the cells of one row,
  labelled by the column names, in column order.
\<close>

type_synonym series = "(string \<times> cell) list"

text \<open>
  \<open>row[label]\<close>: a label that is absent raises \<open>KeyError\<close>; a label carried once gives
  the cell; a label carried several times gives the sub-series of all its cells.
\<close>

datatype item = Scalar cell | Sub "cell list"

definition series_getitem :: "series \<Rightarrow> string \<Rightarrow> error + item" where
  "series_getitem row label =
     (case map snd (filter (\<lambda>(l, v). l = label) row) of
        [] \<Rightarrow> Inl KeyError
      | [v] \<Rightarrow> Inr (Scalar v)
      | vs \<Rightarrow> Inr (Sub vs))"

text \<open>
  \<open>mapping.get(key, default)\<close> on a dict whose keys are Python objects. A Series is not
  hashable, so using one as the key raises \<open>TypeError\<close>.
\<close>

definition dict_get :: "(cell \<times> int) list \<Rightarrow> item \<Rightarrow> int \<Rightarrow> error + int" where
  "dict_get d key dflt =
     (case key of
        Scalar v \<Rightarrow> Inr (case map_of d v of Some k \<Rightarrow> k | None \<Rightarrow> dflt)
      | Sub vs \<Rightarrow> Inl TypeError)"

subsection \<open>The leaning index of one row\<close>

definition mapping :: "(cell \<times> int) list" where
  "mapping =
     [(Text ''Conservative Rep/Lean'', -2),
      (Text ''Moderate/Liberal Rep/Lean'', -1),
      (Text ''Moderate/Conservative Dem/Lean'', 1),
      (Text ''Liberal Dem/Lean'', 2),
      (Text ''Refused either F_IDEO or F_PARTYSUM_FINAL'', 0),
      (Text ''DK/Refused/No lean'', 0)]"

definition calculate_political_leaning :: "series \<Rightarrow> error + int" where
  "calculate_political_leaning row =
     (case series_getitem row ''F_PARTYSUMIDEO_FINAL'' of
        Inl e \<Rightarrow> Inl e
      | Inr leaning \<Rightarrow> dict_get mapping leaning 0)"

subsection \<open>Frames\<close>

text \<open>
  A DataFrame is its column labels, in order, and its rows; each row carries one cell per
  column. \<open>pd.read_excel\<close> renames repeated header cells, so the labels of a frame it returns
  are pairwise different, and every row is as long as the header.
\<close>

record dataframe =
  columns :: "string list"
  rows :: "cell list list"

definition wf_frame :: "dataframe \<Rightarrow> bool" where
  "wf_frame df =
     (distinct (columns df) \<and> list_all (\<lambda>r. length r = length (columns df)) (rows df))"

text \<open>
  \<open>df.apply(f, axis=1)\<close>. On a frame with at least one row and one column, pandas calls
  \<open>f\<close> on the rows from top to bottom, and the first call that raises ends the whole
  \<open>apply\<close> with that error. On a frame without rows or without columns, pandas calls
  \<open>f\<close> once on a row of \<open>NaN\<close> cells under the frame's labels, inside a \<open>try\<close> of its
  own: when that call raises, the error is dropped and \<open>apply\<close> returns a copy of the
  frame; when it returns a value, \<open>apply\<close> returns a Series with that value for each row.
\<close>

fun collect :: "(error + 'a) list \<Rightarrow> error + 'a list" where
  "collect [] = Inr []"
| "collect (x # xs) =
     (case x of
        Inl e \<Rightarrow> Inl e
      | Inr v \<Rightarrow> (case collect xs of Inl e \<Rightarrow> Inl e | Inr vs \<Rightarrow> Inr (v # vs)))"

datatype 'a applied = Reduced "'a list" | Frame_copy

definition apply_rows :: "(series \<Rightarrow> error + 'a) \<Rightarrow> dataframe \<Rightarrow> error + 'a applied" where
  "apply_rows f df =
     (if rows df = [] \<or> columns df = []
      then (case f (map (\<lambda>c. (c, NaN)) (columns df)) of
              Inl e \<Rightarrow> Inr Frame_copy
            | Inr v \<Rightarrow> Inr (Reduced (replicate (length (rows df)) v)))
      else (case collect (map (\<lambda>r. f (zip (columns df) r)) (rows df)) of
              Inl e \<Rightarrow> Inl e
            | Inr vs \<Rightarrow> Inr (Reduced vs)))"

text \<open>
  \<open>df[label] = vals\<close> for a Series \<open>vals\<close> overwrites the cells under \<open>label\<close> when the
  frame has that label and appends a new last column otherwise.
\<close>

definition setitem :: "dataframe \<Rightarrow> string \<Rightarrow> cell list \<Rightarrow> dataframe" where
  "setitem df label vals =
     (if label \<in> set (columns df)
      then df\<lparr>rows := map (\<lambda>(r, v). map (\<lambda>(l, old). if l = label then v else old)
                                         (zip (columns df) r))
                          (zip (rows df) vals)\<rparr>
      else df\<lparr>columns := columns df @ [label],
              rows := map (\<lambda>(r, v). r @ [v]) (zip (rows df) vals)\<rparr>)"

text \<open>
  \<open>df[label] = df.copy()\<close>, the assignment of a frame to one label (pandas 2). When the
  frame has the label, the number of columns under it must be the number of columns of
  the copy, and the assignment then changes nothing; otherwise the copy must have exactly
  one column, whose cells become the new column. Every other case raises \<open>ValueError\<close>.
\<close>

definition first_column :: "dataframe \<Rightarrow> cell list" where
  "first_column df = map (\<lambda>r. case r of [] \<Rightarrow> NaN | v # _ \<Rightarrow> v) (rows df)"

definition setitem_frame_copy :: "dataframe \<Rightarrow> string \<Rightarrow> error + dataframe" where
  "setitem_frame_copy df label =
     (if label \<in> set (columns df)
      then (if length (filter (\<lambda>c. c = label) (columns df)) = length (columns df)
            then Inr df
            else Inl ValueError)
      else (if length (columns df) = 1
            then Inr (setitem df label (first_column df))
            else Inl ValueError))"

text \<open>
  \<open>df['political_leaning_index'] = df.apply(calculate_political_leaning, axis=1)\<close>
\<close>

definition add_political_leaning_index :: "dataframe \<Rightarrow> error + dataframe" where
  "add_political_leaning_index df =
     (case apply_rows calculate_political_leaning df of
        Inl e \<Rightarrow> Inl e
      | Inr (Reduced ks) \<Rightarrow> Inr (setitem df ''political_leaning_index'' (map Number ks))
      | Inr Frame_copy \<Rightarrow> setitem_frame_copy df ''political_leaning_index'')"

text \<open>
  The table as the specification words it: four categories with a non-zero index, and 0
  for the two refused or no-lean categories and for every other value.
\<close>

definition leaning_table :: "cell \<Rightarrow> int" where
  "leaning_table v =
     (if v = Text ''Conservative Rep/Lean'' then -2
      else if v = Text ''Moderate/Liberal Rep/Lean'' then -1
      else if v = Text ''Moderate/Conservative Dem/Lean'' then 1
      else if v = Text ''Liberal Dem/Lean'' then 2
      else 0)"

subsection \<open>Dropping a range of columns\<close>

text \<open>
  \<open>df.columns.get_loc(label)\<close>: \<open>KeyError\<close> for an absent label, the position of a label
  carried once, and a slice or mask, not an integer, for a repeated label.
\<close>

datatype loc = Pos nat | Multi

definition get_loc :: "string list \<Rightarrow> string \<Rightarrow> error + loc" where
  "get_loc cols label =
     (case filter (\<lambda>i. cols ! i = label) [0..<length cols] of
        [] \<Rightarrow> Inl KeyError
      | [i] \<Rightarrow> Inr (Pos i)
      | _ \<Rightarrow> Inr Multi)"

text \<open>\<open>xs[a:b]\<close> for non-negative \<open>a\<close> and \<open>b\<close>.\<close>

definition slice :: "'a list \<Rightarrow> nat \<Rightarrow> nat \<Rightarrow> 'a list" where
  "slice xs a b = drop a (take b xs)"

text \<open>
  \<open>df.drop(labels, axis=1)\<close> removes every column whose label is among \<open>labels\<close> and raises
  \<open>KeyError\<close> when one of them is not a column.
\<close>

definition drop_labels :: "dataframe \<Rightarrow> string list \<Rightarrow> error + dataframe" where
  "drop_labels df labels =
     (if list_all (\<lambda>l. l \<in> set (columns df)) labels
      then Inr \<lparr>columns = filter (\<lambda>l. l \<notin> set labels) (columns df),
                rows = map (\<lambda>r. map snd (filter (\<lambda>(l, v). l \<notin> set labels) (zip (columns df) r)))
                           (rows df)\<rparr>
      else Inl KeyError)"

definition start_col :: string where "start_col = ''SMALG1_W99''"
definition end_col :: string where "end_col = ''DCARS13_d_W99''"

text \<open>
  The cell that drops the columns from \<open>start_col\<close> to \<open>end_col\<close>. Adding 1 to a locator
  that is not an integer, or slicing with one, raises \<open>TypeError\<close>.
\<close>

definition drop_column_range :: "dataframe \<Rightarrow> error + dataframe" where
  "drop_column_range df =
     (case get_loc (columns df) start_col of
        Inl e \<Rightarrow> Inl e
      | Inr start_index \<Rightarrow>
          (case get_loc (columns df) end_col of
             Inl e \<Rightarrow> Inl e
           | Inr end_loc \<Rightarrow>
               (case (start_index, end_loc) of
                  (Pos i, Pos j) \<Rightarrow> drop_labels df (slice (columns df) i (j + 1))
                | _ \<Rightarrow> Inl TypeError)))"

subsection \<open>Which fields the index is computed from\<close>

text \<open>
  Two rows differ only at the field \<open>c\<close> when they carry the same labels in the same order
  and the same cell under every label but \<open>c\<close>. The field \<open>c\<close> influences the leaning
  index when two such rows get different results.
\<close>

definition differ_only_at :: "string \<Rightarrow> series \<Rightarrow> series \<Rightarrow> bool" where
  "differ_only_at c r r' =
     (map fst r = map fst r' \<and> list_all2 (\<lambda>(l, v) (l', v'). l = c \<or> v = v') r r')"

definition influences :: "string \<Rightarrow> bool" where
  "influences c =
     (\<exists>r r'. differ_only_at c r r'
            \<and> calculate_political_leaning r \<noteq> calculate_political_leaning r')"

section \<open>The notebooks as sequences of calls\<close>

text \<open>
  A notebook is straight-line code: its cells run from top to bottom, and each cell is a
  sequence of calls into libraries. An argument of a call is a literal, a name bound
  earlier, or a function.
\<close>

datatype arg =
    Str string
  | Num int
  | Bool bool
  | Dec int nat
  | Name string
  | Lst "arg list"
  | Tup "arg list"
  | Dict "(string \<times> arg) list"
  | Fn string

text \<open>
  \<open>Dec m n\<close> is the decimal literal \<open>m / 10^n\<close>; \<open>Name\<close> carries the text of the
  expression passed. A call has a receiver (empty for a plain function), the function
  called, and its positional and keyword arguments.
\<close>

datatype call =
  Call (receiver: string) (func: string) (args: "arg list") (kwargs: "(string \<times> arg) list")

definition win_path :: "string list \<Rightarrow> string" where
  "win_path parts = concat (map (\<lambda>p. CHR 0x5C # p) parts)"

text \<open>
  \<open>win_path\<close> writes a Windows path: \<open>C:\<close> followed by the components, each after a
  backslash.
\<close>

definition ratings_url :: string where
  "ratings_url = ''https://raw.githubusercontent.com/delinai/schulich_ds1/main/Datasets/ratings.csv''"

definition movies_url :: string where
  "movies_url = ''https://raw.githubusercontent.com/delinai/schulich_ds1/main/Datasets/movies.csv''"

text \<open>
  The recommender notebook. The first \<open>KNNBasic\<close> receives the dict bound to
  \<open>sim_options\<close> on the line before it.
\<close>

definition recommender_notebook :: "call list" where
  "recommender_notebook =
     [Call '''' ''pip install'' [Str ''scikit-surprise''] [],
      Call ''pd'' ''read_csv'' [Str ratings_url] [],
      Call ''pd'' ''read_csv'' [Str movies_url] [],
      Call ''pd'' ''merge'' [Name ''ratings_df'', Name ''movies_df''] [(''on'', Str ''movieId'')],
      Call '''' ''Reader'' [] [(''rating_scale'', Tup [Num 1, Num 10])],
      Call ''Dataset'' ''load_from_df'' [Name ''data[['userId','movieId','rating']]'', Name ''reader''] [],
      Call '''' ''KNNBasic'' []
        [(''sim_options'', Dict [(''name'', Str ''cosine''), (''user_based'', Bool False)])],
      Call '''' ''cross_validate'' [Name ''algo'', Name ''data'']
        [(''measures'', Lst [Str ''RMSE'']), (''cv'', Num 5), (''verbose'', Bool True)],
      Call ''data'' ''build_full_trainset'' [] [],
      Call ''algo'' ''fit'' [Name ''data.build_full_trainset()''] [],
      Call '''' ''print'' [Name ''algo.sim''] [],
      Call ''algo'' ''predict'' [] [(''uid'', Num 1), (''iid'', Num 10)],
      Call ''pd'' ''merge'' [Name ''ratings_df'', Name ''movies_df''] [(''on'', Str ''movieId'')],
      Call '''' ''train_test_split'' [Name ''data''] [(''test_size'', Dec 25 2)],
      Call '''' ''KNNBasic'' [] [(''sim_options'', Dict [(''user_based'', Bool False)])],
      Call ''algo'' ''fit'' [Name ''trainset''] [],
      Call ''algo'' ''test'' [Name ''testset''] [],
      Call ''accuracy'' ''rmse'' [Name ''predictions''] [],
      Call '''' ''SVD'' [] [],
      Call '''' ''cross_validate'' [Name ''svd'', Name ''data'']
        [(''measures'', Lst [Str ''RMSE'']), (''cv'', Num 5), (''verbose'', Bool True)],
      Call ''data'' ''build_full_trainset'' [] [],
      Call ''svd'' ''fit'' [Name ''trainset''] [],
      Call ''df'' ''apply'' [Fn ''lambda x: svd.predict(x['userId'], x['movieId']).est'']
        [(''axis'', Num 1)]]"

text \<open>The regularization notebook.\<close>

definition X_ols_cell :: "call list" where
  "X_ols_cell =
     [Call ''pd'' ''DataFrame'' [] [],
      Call ''np'' ''ones'' [Num 100] [],
      Call ''pd'' ''Series'' [Name ''np.ones(100)''] [],
      Call ''pd'' ''Series'' [Name ''x_1''] [],
      Call ''pd'' ''Series'' [Name ''x_2''] [],
      Call ''pd'' ''Series'' [Name ''x_3''] [],
      Call ''pd'' ''Series'' [Name ''x_4''] [],
      Call ''pd'' ''Series'' [Name ''x_5''] [],
      Call ''pd'' ''Series'' [Name ''x_6''] []]"

definition X_ext_cell :: "call list" where
  "X_ext_cell =
     X_ols_cell
     @ [Call ''pd'' ''Series'' [Name ''x_7''] [],
        Call ''pd'' ''Series'' [Name ''x_8''] [],
        Call ''pd'' ''Series'' [Name ''x_9''] [],
        Call ''pd'' ''Series'' [Name ''x_10''] [],
        Call ''pd'' ''Series'' [Name ''x_11''] [],
        Call ''pd'' ''Series'' [Name ''x_12''] []]"

text \<open>
  \<open>X_ols_cell\<close> and \<open>X_ext_cell\<close> are the cells that build the frames of regressors: the
  empty frame, the column of ones, and one \<open>pd.Series(x_i)\<close> for each regressor, six in
  the first frame and twelve in the second.
\<close>

definition regularization_notebook :: "call list" where
  "regularization_notebook =
     [Call ''np.random'' ''uniform'' [Num 10, Num 40, Num 100] [],
      Call ''np.random'' ''uniform'' [Num (-50), Num 20, Num 100] [],
      Call ''np.random'' ''uniform'' [Num 20, Num 60, Num 100] [],
      Call ''np.random'' ''uniform'' [Num 10, Num 40, Num 100] [],
      Call ''np.random'' ''uniform'' [Num (-50), Num 20, Num 100] [],
      Call ''np.random'' ''uniform'' [Num 20, Num 60, Num 100] [],
      Call ''np.random'' ''normal'' [Num 0, Num 10, Num 100] []]
     @ X_ols_cell
     @ [Call ''sm'' ''OLS'' [Name ''y'', Name ''X_ols''] [],
        Call ''sm.OLS(y,X_ols)'' ''fit'' [] [],
        Call ''model_reg'' ''summary'' [] [],
        Call ''np.random'' ''uniform'' [Num 10, Num 40, Num 100] [],
        Call ''np.random'' ''uniform'' [Num (-50), Num 20, Num 100] [],
        Call ''np.random'' ''uniform'' [Num 20, Num 60, Num 100] [],
        Call ''np.random'' ''uniform'' [Num 10, Num 40, Num 100] [],
        Call ''np.random'' ''uniform'' [Num (-50), Num 20, Num 100] [],
        Call ''np.random'' ''uniform'' [Num 20, Num 60, Num 100] []]
     @ X_ext_cell
     @ [Call ''sm'' ''OLS'' [Name ''y'', Name ''X_ext''] [],
        Call ''sm.OLS(y,X_ext)'' ''fit'' [] [],
        Call ''model_reg'' ''summary'' [] [],
        Call ''X_ext'' ''drop'' [] [(''columns'', Lst [Str ''Constant''])],
        Call ''lm'' ''Lasso'' [] [(''alpha'', Num 1)],
        Call ''lm.Lasso(alpha=1)'' ''fit'' [Name ''X_ext'', Name ''y''] [],
        Call ''lm'' ''Lasso'' [] [(''alpha'', Num 100)],
        Call ''lm.Lasso(alpha=100)'' ''fit'' [Name ''X_ext'', Name ''y''] [],
        Call ''lm'' ''Ridge'' [] [(''alpha'', Num 10)],
        Call ''lm.Ridge(alpha=10)'' ''fit'' [Name ''X_ext'', Name ''y''] [],
        Call ''lm'' ''Ridge'' [] [(''alpha'', Num 10000)],
        Call ''lm.Ridge(alpha=10000)'' ''fit'' [Name ''X_ext'', Name ''y''] []]"

text \<open>The survey notebook.\<close>

definition survey_input :: string where
  "survey_input =
     ''C:'' @ win_path [''Users'', ''etjdr'', ''OneDrive'', ''Desktop'',
                        ''MMAI 5000 Wed 230-5  AI Fun'', ''AI-Human-PewData.xlsx'']"

definition survey_output :: string where
  "survey_output =
     ''C:'' @ win_path [''Users'', ''etjdr'', ''OneDrive'', ''Desktop'',
                        ''MMAI 5000 Wed 230-5  AI Fun'', ''Modified_AI-Human-PewData.xlsx'']"

definition survey_notebook :: "call list" where
  "survey_notebook =
     [Call ''pd'' ''read_excel'' [Str survey_input] [],
      Call ''df'' ''head'' [] [],
      Call '''' ''print'' [Name ''df.head()''] [],
      Call ''df'' ''apply'' [Fn ''calculate_political_leaning''] [(''axis'', Num 1)],
      Call ''df[['F_PARTYLN_FINAL', 'F_PARTYSUM_FINAL', 'F_PARTYSUMIDEO_FINAL', 'political_leaning_index']]''
        ''head'' [] [],
      Call '''' ''print''
        [Name ''df[['F_PARTYLN_FINAL', 'F_PARTYSUM_FINAL', 'F_PARTYSUMIDEO_FINAL', 'political_leaning_index']].head()'']
        [],
      Call ''df'' ''to_excel'' [Str survey_output] [(''index'', Bool False)],
      Call ''df.columns'' ''get_loc'' [Name ''start_col''] [],
      Call ''df.columns'' ''get_loc'' [Name ''end_col''] [],
      Call ''df'' ''drop'' [Name ''df.columns[start_index:end_index]'']
        [(''axis'', Num 1), (''inplace'', Bool True)],
      Call '''' ''print'' [Name ''df.columns''] [],
      Call ''df'' ''to_excel'' [Str survey_output] [(''index'', Bool False)]]"

definition notebooks :: "call list list" where
  "notebooks = [recommender_notebook, regularization_notebook, survey_notebook]"

subsection \<open>Kinds of calls\<close>

definition is_file_read :: "call \<Rightarrow> bool" where
  "is_file_read c = (receiver c = ''pd'' \<and> (func c = ''read_csv'' \<or> func c = ''read_excel''))"

definition is_file_write :: "call \<Rightarrow> bool" where
  "is_file_write c = (func c = ''to_excel'')"

definition is_package_install :: "call \<Rightarrow> bool" where
  "is_package_install c = (func c = ''pip install'')"

definition is_external :: "call \<Rightarrow> bool" where
  "is_external c = (is_file_read c \<or> is_file_write c \<or> is_package_install c)"

definition is_random_draw :: "call \<Rightarrow> bool" where
  "is_random_draw c = (receiver c = ''np.random'')"

definition is_model_call :: "call \<Rightarrow> bool" where
  "is_model_call c = (func c = ''fit'' \<or> func c = ''predict'' \<or> func c = ''cross_validate'')"

definition is_report :: "call \<Rightarrow> bool" where
  "is_report c = (func c = ''print'' \<or> receiver c = ''plt'' \<or> receiver c = ''sns'')"

definition is_estimator :: "call \<Rightarrow> bool" where
  "is_estimator c =
     (func c = ''KNNBasic'' \<or> func c = ''SVD'' \<or> func c = ''Lasso'' \<or> func c = ''Ridge'')"

text \<open>
  The libraries are not part of the repository, so the table of their defaults is a
  parameter: \<open>defaults f\<close> lists the default of each keyword of the estimator \<open>f\<close>. A
  call passes defaults when each keyword argument it passes equals the default of that
  keyword.
\<close>

definition passes_defaults :: "(string \<Rightarrow> (string \<times> arg) list) \<Rightarrow> call \<Rightarrow> bool" where
  "passes_defaults defaults c =
     list_all (\<lambda>(k, v). map_of (defaults (func c)) k = Some v) (kwargs c)"

section \<open>The survey notebook, run from top to bottom\<close>




section \<open>Example inputs\<close>

text \<open>Small frames in the shape of the survey data, used to instantiate the theorems.\<close>

definition survey_example :: dataframe where
  "survey_example =
     \<lparr>columns = [''QKEY'', ''F_PARTYSUM_FINAL'', ''F_PARTYSUMIDEO_FINAL'', ''WEIGHT_W99''],
      rows = [[Number 100260, Text ''Rep/Lean Rep'', Text ''Conservative Rep/Lean'', Fraction 0.206396],
              [Number 100363, Text ''Dem/Lean Dem'', Text ''Moderate/Conservative Dem/Lean'',
               Fraction 0.829579],
              [Number 100999, NaN, NaN, Fraction 1.210606]]\<rparr>"

definition drop_example :: dataframe where
  "drop_example =
     \<lparr>columns = [''QKEY'', ''SMALG1_W99'', ''SMALG2_W99'', ''DCARS13_d_W99'', ''F_IDEO''],
      rows = [[Number 100260, Text ''Yes'', NaN, Text ''No'', Text ''Very conservative''],
              [Number 100314, NaN, Text ''Yes'', NaN, Text ''Liberal'']]\<rparr>"




section \<open>Properties of the leaning index\<close>

lemma map_of_mapping_cases:
  "map_of mapping v =
     (if v = Text ''Conservative Rep/Lean'' then Some (-2)
      else if v = Text ''Moderate/Liberal Rep/Lean'' then Some (-1)
      else if v = Text ''Moderate/Conservative Dem/Lean'' then Some 1
      else if v = Text ''Liberal Dem/Lean'' then Some 2
      else if v = Text ''Refused either F_IDEO or F_PARTYSUM_FINAL'' then Some 0
      else if v = Text ''DK/Refused/No lean'' then Some 0
      else None)"
  by (simp add: mapping_def)

lemma series_getitem_absent:
  "label \<notin> fst ` set row \<Longrightarrow> series_getitem row label = Inl KeyError"
proof -
  assume a: "label \<notin> fst ` set row"
  have "filter (\<lambda>(l, v). l = label) row = []"
    using a by (force simp: filter_empty_conv)
  then show ?thesis by (simp add: series_getitem_def)
qed

lemma leaning_eq_table:
  "series_getitem row ''F_PARTYSUMIDEO_FINAL'' = Inr (Scalar v) \<Longrightarrow>
   calculate_political_leaning row = Inr (leaning_table v)"
  by (simp add: calculate_political_leaning_def dict_get_def map_of_mapping_cases leaning_table_def)




text \<open>
  Claim C10: two rows that agree on the field \<open>F_PARTYSUMIDEO_FINAL\<close> get the same result
  from \<open>calculate_political_leaning\<close>, whatever their other fields hold; the fields
  \<open>F_PARTYLN_FINAL\<close> and \<open>F_PARTYSUM_FINAL\<close>, which the comment above the function names as
  inputs, have no influence.
\<close>

theorem leaning_noninterference:
  assumes "series_getitem r ''F_PARTYSUMIDEO_FINAL'' = series_getitem r' ''F_PARTYSUMIDEO_FINAL''"
  shows "calculate_political_leaning r = calculate_political_leaning r'"
  using assms by (simp add: calculate_political_leaning_def)

theorem leaning_noninterference_witness:
  "series_getitem [(''F_PARTYLN_FINAL'', NaN), (''F_PARTYSUM_FINAL'', Text ''Rep/Lean Rep''),
                   (''F_PARTYSUMIDEO_FINAL'', Text ''Conservative Rep/Lean'')]
                  ''F_PARTYSUMIDEO_FINAL''
     = series_getitem [(''F_PARTYLN_FINAL'', Text ''The Republican Party''),
                       (''F_PARTYSUM_FINAL'', Text ''Dem/Lean Dem''),
                       (''F_PARTYSUMIDEO_FINAL'', Text ''Conservative Rep/Lean'')]
                      ''F_PARTYSUMIDEO_FINAL''
   \<and> calculate_political_leaning
        [(''F_PARTYLN_FINAL'', NaN), (''F_PARTYSUM_FINAL'', Text ''Rep/Lean Rep''),
         (''F_PARTYSUMIDEO_FINAL'', Text ''Conservative Rep/Lean'')]
     = calculate_political_leaning
        [(''F_PARTYLN_FINAL'', Text ''The Republican Party''),
         (''F_PARTYSUM_FINAL'', Text ''Dem/Lean Dem''),
         (''F_PARTYSUMIDEO_FINAL'', Text ''Conservative Rep/Lean'')]"
proof -
  let ?r = "[(''F_PARTYLN_FINAL'', NaN), (''F_PARTYSUM_FINAL'', Text ''Rep/Lean Rep''),
             (''F_PARTYSUMIDEO_FINAL'', Text ''Conservative Rep/Lean'')]"
  let ?r' = "[(''F_PARTYLN_FINAL'', Text ''The Republican Party''),
              (''F_PARTYSUM_FINAL'', Text ''Dem/Lean Dem''),
              (''F_PARTYSUMIDEO_FINAL'', Text ''Conservative Rep/Lean'')]"
  have h: "series_getitem ?r ''F_PARTYSUMIDEO_FINAL'' = series_getitem ?r' ''F_PARTYSUMIDEO_FINAL''"
    by (simp add: series_getitem_def)
  from leaning_noninterference[OF h] h show ?thesis by simp
qed

section \<open>The derived column\<close>

lemma filter_zip_nth:
  "distinct cols \<Longrightarrow> length r = length cols \<Longrightarrow> q < length cols \<Longrightarrow>
   filter (\<lambda>(l, v). l = cols ! q) (zip cols r) = [(cols ! q, r ! q)]"
proof (induction cols arbitrary: r q)
  case Nil
  then show ?case by simp
next
  case (Cons c cols)
  then obtain x xs where r: "r = x # xs" by (cases r) auto
  have none: "filter (\<lambda>(l, v). l = c) (zip cols xs) = []"
    using Cons.prems(1) by (auto simp: filter_empty_conv dest: set_zip_leftD)
  show ?case
  proof (cases q)
    case 0
    then show ?thesis using none r by simp
  next
    case (Suc q')
    have neq: "cols ! q' \<noteq> c" using Cons.prems Suc by auto
    have "filter (\<lambda>(l, v). l = cols ! q') (zip cols xs) = [(cols ! q', xs ! q')]"
      using Cons.IH[of xs q'] Cons.prems Suc r by simp
    then show ?thesis using Suc r neq by auto
  qed
qed

lemma series_getitem_zip:
  "distinct cols \<Longrightarrow> length r = length cols \<Longrightarrow> q < length cols \<Longrightarrow>
   series_getitem (zip cols r) (cols ! q) = Inr (Scalar (r ! q))"
  by (simp add: series_getitem_def filter_zip_nth)

lemma collect_all_Inr:
  "list_all (\<lambda>x. f x = Inr (g x)) xs \<Longrightarrow> collect (map f xs) = Inr (map g xs)"
  by (induction xs) auto

lemma probe_series:
  "map (\<lambda>c. (c, NaN)) cols = zip cols (replicate (length cols) NaN)"
  by (induction cols) auto

lemma setitem_column:
  assumes wf: "distinct (columns df)" and len: "length r = length (columns df)"
    and df': "df' = setitem df label (vals)" and i: "i < length (rows df)" "length vals = length (rows df)"
    and r: "rows df ! i = r"
  shows "series_getitem (zip (columns df') (rows df' ! i)) label = Inr (Scalar (vals ! i))"
proof (cases "label \<in> set (columns df)")
  case True
  then obtain q where q: "q < length (columns df)" "columns df ! q = label"
    by (auto simp: in_set_conv_nth)
  let ?r' = "map (\<lambda>(l, old). if l = label then vals ! i else old) (zip (columns df) r)"
  have cols: "columns df' = columns df" using True df' by (simp add: setitem_def)
  have row: "rows df' ! i = ?r'" using True df' i r by (simp add: setitem_def)
  have "series_getitem (zip (columns df) ?r') (columns df ! q) = Inr (Scalar (?r' ! q))"
    using wf len q by (intro series_getitem_zip) simp_all
  moreover have "?r' ! q = vals ! i" using q len by simp
  ultimately show ?thesis using cols row q by simp
next
  case False
  have cols: "columns df' = columns df @ [label]" using False df' by (simp add: setitem_def)
  have row: "rows df' ! i = r @ [vals ! i]" using False df' i r by (simp add: setitem_def)
  have "series_getitem (zip (columns df @ [label]) (r @ [vals ! i])) ((columns df @ [label]) ! length (columns df))
          = Inr (Scalar ((r @ [vals ! i]) ! length (columns df)))"
    using wf len False by (intro series_getitem_zip) simp_all
  then show ?thesis using cols row len by (simp add: nth_append)
qed

text \<open>
  Claim C1: in a frame that carries the column \<open>F_PARTYSUMIDEO_FINAL\<close>, the derived column
  \<open>political_leaning_index\<close> holds, in every row, the result of one table lookup on that
  row's \<open>F_PARTYSUMIDEO_FINAL\<close> cell: -2 for 'Conservative Rep/Lean', -1 for
  'Moderate/Liberal Rep/Lean', 1 for 'Moderate/Conservative Dem/Lean', 2 for
  'Liberal Dem/Lean', and 0 for the refused and no-lean categories and for any value that
  is not in the table.
\<close>

theorem political_leaning_index_is_table_lookup:
  assumes wf: "wf_frame df"
    and p: "p < length (columns df)" "columns df ! p = ''F_PARTYSUMIDEO_FINAL''"
  shows "\<exists>df'. add_political_leaning_index df = Inr df'
            \<and> length (rows df') = length (rows df)
            \<and> (\<forall>i < length (rows df).
                  series_getitem (zip (columns df') (rows df' ! i)) ''political_leaning_index''
                    = Inr (Scalar (Number (leaning_table (rows df ! i ! p)))))"
proof -
  let ?g = "\<lambda>r. leaning_table (r ! p)"
  have dist: "distinct (columns df)" and rect: "list_all (\<lambda>r. length r = length (columns df)) (rows df)"
    using wf by (simp_all add: wf_frame_def)
  have each: "list_all (\<lambda>r. calculate_political_leaning (zip (columns df) r) = Inr (?g r)) (rows df)"
    unfolding list_all_iff
  proof
    fix r assume "r \<in> set (rows df)"
    then have "length r = length (columns df)" using rect by (simp add: list_all_iff)
    then have "series_getitem (zip (columns df) r) (columns df ! p) = Inr (Scalar (r ! p))"
      using dist p(1) by (intro series_getitem_zip)
    then show "calculate_political_leaning (zip (columns df) r) = Inr (?g r)"
      using p(2) by (simp add: leaning_eq_table)
  qed
  have app: "apply_rows calculate_political_leaning df = Inr (Reduced (map ?g (rows df)))"
  proof (cases "rows df = []")
    case True
    have "series_getitem (zip (columns df) (replicate (length (columns df)) NaN)) (columns df ! p)
            = Inr (Scalar (replicate (length (columns df)) NaN ! p))"
      using dist p(1) by (intro series_getitem_zip) simp_all
    then have "calculate_political_leaning (map (\<lambda>c. (c, NaN)) (columns df))
                 = Inr (leaning_table NaN)"
      using p by (simp add: probe_series leaning_eq_table)
    then show ?thesis using True by (simp add: apply_rows_def)
  next
    case False
    moreover have "columns df \<noteq> []" using p(1) by auto
    ultimately show ?thesis using collect_all_Inr[OF each] by (simp add: apply_rows_def)
  qed
  define df' where "df' = setitem df ''political_leaning_index'' (map Number (map ?g (rows df)))"
  have res: "add_political_leaning_index df = Inr df'"
    by (simp add: add_political_leaning_index_def app df'_def)
  have len: "length (rows df') = length (rows df)"
    by (simp add: df'_def setitem_def)
  have col: "series_getitem (zip (columns df') (rows df' ! i)) ''political_leaning_index''
               = Inr (Scalar (Number (leaning_table (rows df ! i ! p))))"
    if i: "i < length (rows df)" for i
  proof -
    have "length (rows df ! i) = length (columns df)"
      using rect i by (simp add: list_all_length)
    from setitem_column[OF dist this df'_def i _ refl]
    show ?thesis using i by simp
  qed
  show ?thesis using res len col by blast
qed

theorem political_leaning_index_is_table_lookup_witness:
  "wf_frame survey_example
   \<and> (\<exists>df'. add_political_leaning_index survey_example = Inr df'
          \<and> series_getitem (zip (columns df') (rows df' ! 1)) ''political_leaning_index''
              = Inr (Scalar (Number 1))
          \<and> series_getitem (zip (columns df') (rows df' ! 2)) ''political_leaning_index''
              = Inr (Scalar (Number 0)))"
proof -
  have wf: "wf_frame survey_example"
    by (simp add: wf_frame_def survey_example_def)
  have p: "2 < length (columns survey_example)"
    "columns survey_example ! 2 = ''F_PARTYSUMIDEO_FINAL''"
    by (simp_all add: survey_example_def)
  from political_leaning_index_is_table_lookup[OF wf p]
  obtain df' where df': "add_political_leaning_index survey_example = Inr df'"
    and col: "\<forall>i < length (rows survey_example).
                series_getitem (zip (columns df') (rows df' ! i)) ''political_leaning_index''
                  = Inr (Scalar (Number (leaning_table (rows survey_example ! i ! 2))))"
    by blast
  have "series_getitem (zip (columns df') (rows df' ! 1)) ''political_leaning_index''
          = Inr (Scalar (Number 1))"
    using col[rule_format, of 1] by (simp add: survey_example_def leaning_table_def)
  moreover have "series_getitem (zip (columns df') (rows df' ! 2)) ''political_leaning_index''
          = Inr (Scalar (Number 0))"
    using col[rule_format, of 2] by (simp add: survey_example_def leaning_table_def)
  ultimately show ?thesis using wf df' by blast
qed

text \<open>
  The cell keeps the frame well formed, so the frame that reaches the column drop has
  pairwise different labels and rectangular rows, like the frame that was read.
\<close>

lemma setitem_wf:
  assumes wf: "wf_frame df" and len: "length vals = length (rows df)"
  shows "wf_frame (setitem df label vals)"
proof (cases "label \<in> set (columns df)")
  case True
  then show ?thesis
    using wf by (auto simp: wf_frame_def setitem_def list_all_iff dest: set_zip_leftD)
next
  case False
  then show ?thesis
    using wf by (auto simp: wf_frame_def setitem_def list_all_iff dest: set_zip_leftD)
qed

lemma collect_length:
  "collect xs = Inr vs \<Longrightarrow> length vs = length xs"
  by (induction xs arbitrary: vs) (auto split: sum.splits)

lemma add_political_leaning_index_wf:
  assumes "wf_frame df" and "add_political_leaning_index df = Inr df'"
  shows "wf_frame df'"
proof (cases "apply_rows calculate_political_leaning df")
  case (Inl e)
  then show ?thesis using assms(2) by (simp add: add_political_leaning_index_def)
next
  case (Inr a)
  show ?thesis
  proof (cases a)
    case (Reduced ks)
    have "length ks = length (rows df)"
      using Inr Reduced
      by (auto simp: apply_rows_def split: if_splits sum.splits dest: collect_length)
    moreover have "df' = setitem df ''political_leaning_index'' (map Number ks)"
      using assms(2) Inr Reduced by (simp add: add_political_leaning_index_def)
    ultimately show ?thesis using setitem_wf[OF assms(1)] by simp
  next
    case Frame_copy
    then have "setitem_frame_copy df ''political_leaning_index'' = Inr df'"
      using assms(2) Inr by (simp add: add_political_leaning_index_def)
    then show ?thesis
      using assms(1) setitem_wf[OF assms(1), of "first_column df" "''political_leaning_index''"]
      by (auto simp: setitem_frame_copy_def first_column_def split: if_splits)
  qed
qed

section \<open>The column drop\<close>

lemma filter_index_distinct:
  "distinct cols \<Longrightarrow> i < length cols \<Longrightarrow>
   filter (\<lambda>k. cols ! k = cols ! i) [0..<length cols] = [i]"
proof -
  assume d: "distinct cols" and i: "i < length cols"
  have "filter (\<lambda>k. cols ! k = cols ! i) [0..<length cols] = filter (\<lambda>k. k = i) [0..<length cols]"
    by (rule filter_cong) (use d i in \<open>auto simp: nth_eq_iff_index_eq\<close>)
  also have "\<dots> = [i]"
  proof -
    have "[0..<length cols] = [0..<i] @ i # [Suc i..<length cols]"
      using i by (metis upt_conv_Cons upt_add_eq_append le0 less_imp_le_nat le_add_diff_inverse add.left_neutral)
    then show ?thesis by (simp add: filter_empty_conv)
  qed
  finally show ?thesis .
qed

lemma get_loc_distinct:
  "distinct cols \<Longrightarrow> i < length cols \<Longrightarrow> get_loc cols (cols ! i) = Inr (Pos i)"
  by (simp add: get_loc_def filter_index_distinct)

lemma filter_zip_keep:
  "length xs = length ys \<Longrightarrow> (\<forall>x \<in> set xs. P x) \<Longrightarrow>
   map snd (filter (\<lambda>(l, v). P l) (zip xs ys)) = ys"
  by (induction xs ys rule: list_induct2) auto

lemma filter_zip_none:
  "(\<forall>x \<in> set xs. \<not> P x) \<Longrightarrow> filter (\<lambda>(l, v). P l) (zip xs ys) = []"
  by (auto simp: filter_empty_conv dest: set_zip_leftD)

lemma split_block:
  "i \<le> j \<Longrightarrow> xs = take i xs @ slice xs i (j + 1) @ drop (Suc j) xs"
proof -
  assume ij: "i \<le> j"
  have "take (Suc j) xs = take i (take (Suc j) xs) @ drop i (take (Suc j) xs)"
    by (simp only: append_take_drop_id)
  moreover have "take i (take (Suc j) xs) = take i xs"
    using ij by (simp add: min_def)
  ultimately have "take (Suc j) xs = take i xs @ slice xs i (j + 1)"
    by (simp add: slice_def)
  then show ?thesis
    by (metis append_take_drop_id append.assoc)
qed

lemma filter_middle:
  "distinct (A @ B @ C) \<Longrightarrow> filter (\<lambda>l. l \<notin> set B) (A @ B @ C) = A @ C"
proof -
  assume "distinct (A @ B @ C)"
  then have disj: "\<forall>x \<in> set A. x \<notin> set B" "\<forall>x \<in> set C. x \<notin> set B" by auto
  have "filter (\<lambda>l. l \<notin> set B) A = A" "filter (\<lambda>l. l \<notin> set B) C = C"
    "filter (\<lambda>l. l \<notin> set B) B = []"
    using disj by (simp_all add: filter_empty_conv filter_id_conv)
  then show ?thesis by simp
qed

lemma filter_zip_middle:
  assumes "distinct (A @ B @ C)" and la: "length A = length ra" and lb: "length B = length rb"
    and lc: "length C = length rc"
  shows "map snd (filter (\<lambda>(l, v). l \<notin> set B) (zip (A @ B @ C) (ra @ rb @ rc))) = ra @ rc"
proof -
  from assms(1) have disj: "\<forall>x \<in> set A. x \<notin> set B" "\<forall>x \<in> set C. x \<notin> set B" by auto
  have z: "zip (A @ B @ C) (ra @ rb @ rc) = zip A ra @ zip B rb @ zip C rc"
    using la lb by simp
  show ?thesis
    unfolding z
    using filter_zip_keep[OF la disj(1)] filter_zip_keep[OF lc disj(2)]
      filter_zip_none[of B "\<lambda>l. l \<notin> set B" rb]
    by simp
qed

lemma drop_block_labels:
  assumes d: "distinct cols" and ij: "i \<le> j"
  shows "filter (\<lambda>l. l \<notin> set (slice cols i (j + 1))) cols = take i cols @ drop (Suc j) cols"
proof -
  define A B C where "A = take i cols" and "B = slice cols i (j + 1)" and "C = drop (Suc j) cols"
  have cols: "cols = A @ B @ C" unfolding A_def B_def C_def using ij by (rule split_block)
  have "filter (\<lambda>l. l \<notin> set B) (A @ B @ C) = A @ C"
    using d cols by (intro filter_middle) simp
  then have "filter (\<lambda>l. l \<notin> set B) cols = A @ C" using cols by simp
  then show ?thesis unfolding A_def B_def C_def .
qed

lemma drop_block_cells:
  assumes d: "distinct cols" and len: "length r = length cols" and ij: "i \<le> j"
  shows "map snd (filter (\<lambda>(l, v). l \<notin> set (slice cols i (j + 1))) (zip cols r))
           = take i r @ drop (Suc j) r"
proof -
  define A B C where "A = take i cols" and "B = slice cols i (j + 1)" and "C = drop (Suc j) cols"
  define ra rb rc where "ra = take i r" and "rb = slice r i (j + 1)" and "rc = drop (Suc j) r"
  have cols: "cols = A @ B @ C" unfolding A_def B_def C_def using ij by (rule split_block)
  have r: "r = ra @ rb @ rc" unfolding ra_def rb_def rc_def using ij by (rule split_block)
  have la: "length A = length ra" and lb: "length B = length rb" and lc: "length C = length rc"
    using len by (simp_all add: slice_def A_def B_def C_def ra_def rb_def rc_def)
  have "map snd (filter (\<lambda>(l, v). l \<notin> set B) (zip (A @ B @ C) (ra @ rb @ rc))) = ra @ rc"
    using d cols la lb lc by (intro filter_zip_middle) simp_all
  then have "map snd (filter (\<lambda>(l, v). l \<notin> set B) (zip cols r)) = ra @ rc"
    using cols r by simp
  then show ?thesis unfolding B_def ra_def rc_def .
qed

text \<open>
  Claim C9: when the columns \<open>SMALG1_W99\<close> and \<open>DCARS13_d_W99\<close> are both in the frame, the
  first at a position \<open>i\<close> at or before the position \<open>j\<close> of the second, the drop removes
  exactly the columns at the positions \<open>i\<close> to \<open>j\<close>, both ends included: the columns before
  \<open>i\<close> and after \<open>j\<close> stay, in their order and with their cells, and the frame has as many
  rows as before.
\<close>

theorem drop_removes_exactly_the_block:
  assumes wf: "wf_frame df"
    and i: "i < length (columns df)" "columns df ! i = ''SMALG1_W99''"
    and j: "j < length (columns df)" "columns df ! j = ''DCARS13_d_W99''"
    and ij: "i \<le> j"
  shows "drop_column_range df =
           Inr \<lparr>columns = take i (columns df) @ drop (Suc j) (columns df),
                rows = map (\<lambda>r. take i r @ drop (Suc j) r) (rows df)\<rparr>"
proof -
  have dist: "distinct (columns df)" and rect: "\<forall>r \<in> set (rows df). length r = length (columns df)"
    using wf by (simp_all add: wf_frame_def list_all_iff)
  have s: "get_loc (columns df) start_col = Inr (Pos i)"
    using get_loc_distinct[OF dist i(1)] i(2) by (simp add: start_col_def)
  have e: "get_loc (columns df) end_col = Inr (Pos j)"
    using get_loc_distinct[OF dist j(1)] j(2) by (simp add: end_col_def)
  let ?labels = "slice (columns df) i (j + 1)"
  have present: "list_all (\<lambda>l. l \<in> set (columns df)) ?labels"
    by (auto simp: list_all_iff slice_def dest: in_set_dropD in_set_takeD)
  have rows: "map (\<lambda>r. map snd (filter (\<lambda>(l, v). l \<notin> set ?labels) (zip (columns df) r))) (rows df)
                = map (\<lambda>r. take i r @ drop (Suc j) r) (rows df)"
    using rect drop_block_cells[OF dist _ ij] by (intro map_cong) auto
  show ?thesis
    using s e present rows drop_block_labels[OF dist ij]
    by (simp add: drop_column_range_def drop_labels_def)
qed

theorem drop_removes_exactly_the_block_witness:
  "wf_frame drop_example
   \<and> columns drop_example ! 1 = ''SMALG1_W99'' \<and> columns drop_example ! 3 = ''DCARS13_d_W99''
   \<and> drop_column_range drop_example =
       Inr \<lparr>columns = [''QKEY'', ''F_IDEO''],
            rows = [[Number 100260, Text ''Very conservative''], [Number 100314, Text ''Liberal'']]\<rparr>"
proof -
  have wf: "wf_frame drop_example"
    by (simp add: wf_frame_def drop_example_def)
  have i: "1 < length (columns drop_example)" "columns drop_example ! 1 = ''SMALG1_W99''"
    and j: "3 < length (columns drop_example)" "columns drop_example ! 3 = ''DCARS13_d_W99''"
    by (simp_all add: drop_example_def)
  from drop_removes_exactly_the_block[OF wf i j] wf i j show ?thesis
    by (simp add: drop_example_def)
qed

section \<open>The fields behind the index\<close>

lemma differ_only_at_filter:
  assumes "list_all2 (\<lambda>(l, v) (l', v'). l = c \<or> v = v') r r'" and "map fst r = map fst r'"
    and "label \<noteq> c"
  shows "filter (\<lambda>(l, v). l = label) r = filter (\<lambda>(l, v). l = label) r'"
  using assms by (induction r r' rule: list_all2_induct) auto

lemma differ_only_at_getitem:
  "differ_only_at c r r' \<Longrightarrow> label \<noteq> c \<Longrightarrow> series_getitem r label = series_getitem r' label"
  using differ_only_at_filter[of c r r' label]
  by (simp add: differ_only_at_def series_getitem_def)

lemma influences_field: "influences ''F_PARTYSUMIDEO_FINAL''"
proof -
  let ?r = "[(''F_PARTYSUMIDEO_FINAL'', Text ''Liberal Dem/Lean'')]"
  let ?r' = "[(''F_PARTYSUMIDEO_FINAL'', NaN)]"
  have "differ_only_at ''F_PARTYSUMIDEO_FINAL'' ?r ?r'"
    by (simp add: differ_only_at_def)
  moreover have "calculate_political_leaning ?r \<noteq> calculate_political_leaning ?r'"
    by (simp add: calculate_political_leaning_def series_getitem_def dict_get_def
        map_of_mapping_cases)
  ultimately show ?thesis unfolding influences_def by blast
qed

lemma influences_only_field: "influences c \<Longrightarrow> c = ''F_PARTYSUMIDEO_FINAL''"
proof (rule ccontr)
  assume inf: "influences c" and ne: "c \<noteq> ''F_PARTYSUMIDEO_FINAL''"
  then obtain r r' where d: "differ_only_at c r r'"
    and neq: "calculate_political_leaning r \<noteq> calculate_political_leaning r'"
    unfolding influences_def by blast
  have "series_getitem r ''F_PARTYSUMIDEO_FINAL'' = series_getitem r' ''F_PARTYSUMIDEO_FINAL''"
    using differ_only_at_getitem[OF d] ne by simp
  then have "calculate_political_leaning r = calculate_political_leaning r'"
    by (simp add: calculate_political_leaning_def)
  with neq show False by simp
qed

text \<open>
  Claim C3, as the specification states it, has the index computed from four survey
  fields. It is refuted: no four different fields influence the index.
\<close>

theorem index_not_from_four_fields:
  "\<not> (\<exists>c1 c2 c3 c4. distinct [c1, c2, c3, c4]
         \<and> influences c1 \<and> influences c2 \<and> influences c3 \<and> influences c4)"
proof
  assume "\<exists>c1 c2 c3 c4. distinct [c1, c2, c3, c4]
         \<and> influences c1 \<and> influences c2 \<and> influences c3 \<and> influences c4"
  then obtain c1 c2 where "c1 \<noteq> c2" "influences c1" "influences c2" by auto
  then show False using influences_only_field by blast
qed

text \<open>
  Claim C3, amended: the derived index is computed from one survey field of each row,
  \<open>F_PARTYSUMIDEO_FINAL\<close>; that field influences the index and no other field does.
\<close>

theorem index_computed_from_one_field:
  "influences c \<longleftrightarrow> c = ''F_PARTYSUMIDEO_FINAL''"
  using influences_field influences_only_field by blast

theorem index_computed_from_one_field_witness:
  "influences ''F_PARTYSUMIDEO_FINAL'' \<and> \<not> influences ''F_PARTYLN_FINAL''
   \<and> \<not> influences ''F_PARTYSUM_FINAL'' \<and> \<not> influences ''F_IDEO''"
  using index_computed_from_one_field[of "''F_PARTYSUMIDEO_FINAL''"]
    index_computed_from_one_field[of "''F_PARTYLN_FINAL''"]
    index_computed_from_one_field[of "''F_PARTYSUM_FINAL''"]
    index_computed_from_one_field[of "''F_IDEO''"]
  by simp

section \<open>The calls of the notebooks\<close>

lemmas kind_defs = is_external_def is_file_read_def is_file_write_def is_package_install_def
  is_random_draw_def is_model_call_def is_report_def is_estimator_def

lemmas notebook_defs = recommender_notebook_def regularization_notebook_def survey_notebook_def
  X_ols_cell_def X_ext_cell_def

subsection \<open>Hyperparameters\<close>

lemma estimators_recommender:
  "filter is_estimator recommender_notebook =
     [Call '''' ''KNNBasic'' []
        [(''sim_options'', Dict [(''name'', Str ''cosine''), (''user_based'', Bool False)])],
      Call '''' ''KNNBasic'' [] [(''sim_options'', Dict [(''user_based'', Bool False)])],
      Call '''' ''SVD'' [] []]"
  by (simp add: recommender_notebook_def is_estimator_def)

lemma estimators_regularization:
  "filter is_estimator regularization_notebook =
     [Call ''lm'' ''Lasso'' [] [(''alpha'', Num 1)],
      Call ''lm'' ''Lasso'' [] [(''alpha'', Num 100)],
      Call ''lm'' ''Ridge'' [] [(''alpha'', Num 10)],
      Call ''lm'' ''Ridge'' [] [(''alpha'', Num 10000)]]"
  by (simp add: regularization_notebook_def X_ols_cell_def X_ext_cell_def is_estimator_def)

lemma estimators_survey: "filter is_estimator survey_notebook = []"
  by (simp add: survey_notebook_def is_estimator_def)

lemma estimator_calls:
  "filter is_estimator (concat notebooks) =
     [Call '''' ''KNNBasic'' []
        [(''sim_options'', Dict [(''name'', Str ''cosine''), (''user_based'', Bool False)])],
      Call '''' ''KNNBasic'' [] [(''sim_options'', Dict [(''user_based'', Bool False)])],
      Call '''' ''SVD'' [] [],
      Call ''lm'' ''Lasso'' [] [(''alpha'', Num 1)],
      Call ''lm'' ''Lasso'' [] [(''alpha'', Num 100)],
      Call ''lm'' ''Ridge'' [] [(''alpha'', Num 10)],
      Call ''lm'' ''Ridge'' [] [(''alpha'', Num 10000)]]"
  by (simp add: notebooks_def estimators_recommender estimators_regularization estimators_survey)

text \<open>
  Claim C2, as the specification states it, has the k-NN, SVD, Lasso and Ridge estimators
  all constructed with the library defaults. It is refuted without knowing the defaults:
  no table of defaults makes every keyword argument of these calls a default, since
  \<open>Lasso\<close> is given \<open>alpha=1\<close> and \<open>alpha=100\<close>.
\<close>

theorem estimators_not_all_default:
  "\<not> (\<exists>defaults. list_all (passes_defaults defaults) (filter is_estimator (concat notebooks)))"
  unfolding estimator_calls by (simp add: passes_defaults_def)

text \<open>
  Claim C2, amended: each estimator is built by a single library call. \<open>SVD\<close> is built
  with no argument, hence with the defaults of the library. \<open>KNNBasic\<close> is built with
  explicit similarity options (item-based cosine, then item-based), \<open>Lasso\<close> with
  \<open>alpha=1\<close> and \<open>alpha=100\<close>, \<open>Ridge\<close> with \<open>alpha=10\<close> and \<open>alpha=10000\<close>: whatever
  the defaults of the library are, the two calls of each of these three estimators do not
  both pass defaults.
\<close>

theorem estimator_hyperparameters:
  "filter is_estimator (concat notebooks) =
     [Call '''' ''KNNBasic'' []
        [(''sim_options'', Dict [(''name'', Str ''cosine''), (''user_based'', Bool False)])],
      Call '''' ''KNNBasic'' [] [(''sim_options'', Dict [(''user_based'', Bool False)])],
      Call '''' ''SVD'' [] [],
      Call ''lm'' ''Lasso'' [] [(''alpha'', Num 1)],
      Call ''lm'' ''Lasso'' [] [(''alpha'', Num 100)],
      Call ''lm'' ''Ridge'' [] [(''alpha'', Num 10)],
      Call ''lm'' ''Ridge'' [] [(''alpha'', Num 10000)]]
   \<and> passes_defaults defaults (Call '''' ''SVD'' [] [])
   \<and> \<not> (passes_defaults defaults
            (Call '''' ''KNNBasic'' []
               [(''sim_options'', Dict [(''name'', Str ''cosine''), (''user_based'', Bool False)])])
        \<and> passes_defaults defaults
            (Call '''' ''KNNBasic'' [] [(''sim_options'', Dict [(''user_based'', Bool False)])]))
   \<and> \<not> (passes_defaults defaults (Call ''lm'' ''Lasso'' [] [(''alpha'', Num 1)])
        \<and> passes_defaults defaults (Call ''lm'' ''Lasso'' [] [(''alpha'', Num 100)]))
   \<and> \<not> (passes_defaults defaults (Call ''lm'' ''Ridge'' [] [(''alpha'', Num 10)])
        \<and> passes_defaults defaults (Call ''lm'' ''Ridge'' [] [(''alpha'', Num 10000)]))"
  unfolding estimator_calls by (simp add: passes_defaults_def)

subsection \<open>External interfaces\<close>

text \<open>
  Claim C4, as the specification states it, has every notebook read a CSV or Excel file,
  write an Excel file, and do no other external input or output. It is refuted: the
  regularization notebook reads no file and writes none, and the recommender notebook
  writes no file and installs a package, which is neither a file read nor a file write.
\<close>

theorem not_every_notebook_reads_and_writes:
  "regularization_notebook \<in> set notebooks
   \<and> \<not> list_ex is_file_read regularization_notebook
   \<and> \<not> list_ex is_file_write regularization_notebook
   \<and> recommender_notebook \<in> set notebooks
   \<and> \<not> list_ex is_file_write recommender_notebook
   \<and> list_ex (\<lambda>c. is_external c \<and> \<not> is_file_read c \<and> \<not> is_file_write c) recommender_notebook"
  by (simp add: notebooks_def notebook_defs kind_defs)

text \<open>
  Claim C4, amended: the external interfaces of the notebooks are reading a CSV or Excel
  file from a URL or a local path, writing an Excel file to a local path, and installing
  a package. The survey notebook reads one Excel file from a local path and writes the
  modified frame to one local Excel path, twice; the recommender notebook installs a
  package and reads two CSV files from URLs, and writes nothing; the regularization
  notebook has no external input or output.
\<close>

theorem external_interfaces_of_each_notebook:
  "filter is_external recommender_notebook =
     [Call '''' ''pip install'' [Str ''scikit-surprise''] [],
      Call ''pd'' ''read_csv'' [Str ratings_url] [],
      Call ''pd'' ''read_csv'' [Str movies_url] []]
   \<and> filter is_external regularization_notebook = []
   \<and> filter is_external survey_notebook =
     [Call ''pd'' ''read_excel'' [Str survey_input] [],
      Call ''df'' ''to_excel'' [Str survey_output] [(''index'', Bool False)],
      Call ''df'' ''to_excel'' [Str survey_output] [(''index'', Bool False)]]"
  by (simp add: notebook_defs kind_defs)

subsection \<open>Load, model, report\<close>

text \<open>
  Claim C7, as the specification states it, has every notebook load a dataset from a CSV
  or Excel source, then call \<open>fit\<close>, \<open>predict\<close> or \<open>cross_validate\<close>, and print or plot.
  It is refuted: the regularization notebook loads nothing (its data are 13 draws from
  \<open>np.random\<close>) and neither prints nor plots, and the survey notebook calls none of
  \<open>fit\<close>, \<open>predict\<close>, \<open>cross_validate\<close>.
\<close>

theorem not_every_notebook_loads_then_fits:
  "regularization_notebook \<in> set notebooks
   \<and> filter is_file_read regularization_notebook = []
   \<and> length (filter is_random_draw regularization_notebook) = 13
   \<and> filter is_report regularization_notebook = []
   \<and> survey_notebook \<in> set notebooks
   \<and> filter is_model_call survey_notebook = []"
  by (simp add: notebooks_def notebook_defs kind_defs)

text \<open>
  Claim C7, amended: the recommender notebook loads two CSV datasets, then calls
  \<open>cross_validate\<close>, \<open>fit\<close> and \<open>predict\<close>, and prints; the survey notebook loads an Excel
  dataset and prints, and calls none of \<open>fit\<close>, \<open>predict\<close>, \<open>cross_validate\<close>; the
  regularization notebook loads no dataset, its input being 13 draws from \<open>np.random\<close>,
  calls \<open>fit\<close> six times, and neither prints nor plots.
\<close>

theorem load_model_report_of_each_notebook:
  "map func (filter (\<lambda>c. is_file_read c \<or> is_model_call c \<or> is_report c) recommender_notebook)
     = [''read_csv'', ''read_csv'', ''cross_validate'', ''fit'', ''print'', ''predict'', ''fit'',
        ''cross_validate'', ''fit'']
   \<and> map func (filter (\<lambda>c. is_file_read c \<or> is_model_call c \<or> is_report c) survey_notebook)
     = [''read_excel'', ''print'', ''print'', ''print'']
   \<and> map func (filter (\<lambda>c. is_file_read c \<or> is_model_call c \<or> is_report c) regularization_notebook)
     = [''fit'', ''fit'', ''fit'', ''fit'', ''fit'', ''fit'']
   \<and> map func (filter is_random_draw regularization_notebook)
     = [''uniform'', ''uniform'', ''uniform'', ''uniform'', ''uniform'', ''uniform'', ''normal'',
        ''uniform'', ''uniform'', ''uniform'', ''uniform'', ''uniform'', ''uniform'']"
  by (simp add: notebook_defs kind_defs)

section \<open>Errors in the survey notebook\<close>

lemma collect_first_error:
  assumes "i < length xs" and "xs ! i = Inl e" and "\<forall>j<i. \<exists>v. xs ! j = Inr v"
  shows "collect xs = Inl e"
  using assms
proof (induction xs arbitrary: i)
  case Nil
  then show ?case by simp
next
  case (Cons x xs)
  show ?case
  proof (cases i)
    case 0
    then show ?thesis using Cons.prems(2) by simp
  next
    case (Suc i')
    obtain v where x: "x = Inr v"
      using Cons.prems(3) Suc by (metis nth_Cons_0 zero_less_Suc)
    have "collect xs = Inl e"
    proof (rule Cons.IH)
      show "i' < length xs" using Cons.prems(1) Suc by simp
      show "xs ! i' = Inl e" using Cons.prems(2) Suc by simp
      show "\<forall>j<i'. \<exists>v. xs ! j = Inr v"
      proof (intro allI impI)
        fix j assume "j < i'"
        then have "Suc j < i" using Suc by simp
        then have "\<exists>v. (x # xs) ! Suc j = Inr v" using Cons.prems(3) by blast
        then show "\<exists>v. xs ! j = Inr v" by simp
      qed
    qed
    then show ?thesis using x by simp
  qed
qed

text \<open>
  On a frame with a row and a column, the error that the function raises on the first
  row it fails on is the error of the whole cell.
\<close>

lemma function_error_leaves_cell:
  assumes "rows df \<noteq> []" and "columns df \<noteq> []" and "i < length (rows df)"
    and "calculate_political_leaning (zip (columns df) (rows df ! i)) = Inl e"
    and "\<forall>j<i. \<exists>k. calculate_political_leaning (zip (columns df) (rows df ! j)) = Inr k"
  shows "add_political_leaning_index df = Inl e"
proof -
  let ?xs = "map (\<lambda>r. calculate_political_leaning (zip (columns df) r)) (rows df)"
  have "collect ?xs = Inl e"
  proof (rule collect_first_error)
    show "i < length ?xs" using assms(3) by simp
    show "?xs ! i = Inl e" using assms(3,4) by simp
    show "\<forall>j<i. \<exists>v. ?xs ! j = Inr v" using assms(3,5) by simp
  qed
  then show ?thesis
    using assms(1,2) by (simp add: add_political_leaning_index_def apply_rows_def)
qed


lemma missing_column_raises:
  assumes "''F_PARTYSUMIDEO_FINAL'' \<notin> set (columns df)"
    and "rows df \<noteq> []" and "columns df \<noteq> []"
  shows "add_political_leaning_index df = Inl KeyError"
proof (rule function_error_leaves_cell[where i = 0])
  show "rows df \<noteq> []" "columns df \<noteq> []" by fact+
  show "0 < length (rows df)" using assms(2) by simp
  have "''F_PARTYSUMIDEO_FINAL'' \<notin> fst ` set (zip (columns df) (rows df ! 0))"
    using assms(1) by (auto dest: set_zip_leftD)
  then show "calculate_political_leaning (zip (columns df) (rows df ! 0)) = Inl KeyError"
    by (simp add: calculate_political_leaning_def series_getitem_absent)
  show "\<forall>j<0. \<exists>k. calculate_political_leaning (zip (columns df) (rows df ! j)) = Inr k"
    by simp
qed






end
